theory Spec2Isabelle
  imports Main "HOL-Library.Sublist"
begin

section \<open>The values the mocker handles\<close>

text \<open>
  The embedding follows \<^verbatim>\<open>src/mocker/mocker.ts\<close>. A field that may be
  \<^verbatim>\<open>undefined\<close> is an \<open>option\<close> (\<open>None\<close> is \<^verbatim>\<open>undefined\<close>); an exception
  is the left summand of a sum type.
\<close>

datatype Exception = Exception string

text \<open>
  Numbers: \<^verbatim>\<open>times\<close>, \<^verbatim>\<open>delay\<close> and \<^verbatim>\<open>status\<close> hold counts, so the finite
  values are integers; \<^verbatim>\<open>Infinity\<close> is the default of \<^verbatim>\<open>times\<close>.
\<close>

datatype Number = Finite int | Infinity | NegInfinity | NaN

text \<open>The comparison \<^verbatim>\<open>x <= 0\<close> of JavaScript.\<close>

fun le_zero :: "Number \<Rightarrow> bool" where
  "le_zero (Finite n) = (n \<le> 0)"
| "le_zero Infinity = False"
| "le_zero NegInfinity = True"
| "le_zero NaN = False"

text \<open>
  A regular expression object, by what the mocker observes of it: the result of
  \<^verbatim>\<open>test\<close> (which may throw) and the text \<^verbatim>\<open>/source/flags\<close> that
  \<^verbatim>\<open>String(re)\<close> gives.
\<close>

record RegExp =
  source :: string
  flags :: string
  test :: "string \<Rightarrow> Exception + bool"

definition regExpToString :: "RegExp \<Rightarrow> string" where
  "regExpToString re = ''/'' @ source re @ ''/'' @ flags re"

text \<open>The type \<^verbatim>\<open>RegExp | String\<close> of a rule's \<^verbatim>\<open>url\<close>.\<close>

datatype Url = UrlString string | UrlRegExp RegExp

text \<open>A response body (\<^verbatim>\<open>any\<close>): a string, or some other value.\<close>

datatype 'b Any = AnyString string | AnyValue 'b

type_synonym Header = "(string \<times> string) list"

text \<open>
  \<^verbatim>\<open>MockItemExt\<close> is the options object \<^verbatim>\<open>{delay, status, header, times}\<close>;
  a \<^verbatim>\<open>MockItem\<close> has these fields and \<^verbatim>\<open>key\<close>, \<^verbatim>\<open>url\<close>, \<^verbatim>\<open>method\<close>,
  \<^verbatim>\<open>body\<close>, \<^verbatim>\<open>disable\<close>. The fields \<^verbatim>\<open>times\<close>, \<^verbatim>\<open>method\<close> and
  \<^verbatim>\<open>disable\<close> carry a suffix: \<open>times\<close> is the multiplication of HOL,
  \<open>method\<close> is a command of Isabelle, and \<open>disable\<close> is the mocker's method.
\<close>

record MockItemExt =
  delay :: "Number option"
  status :: "Number option"
  header :: "Header option"
  times_field :: "Number option"

record 'b MockItem = MockItemExt +
  key :: "string option"
  url :: "Url option"
  method_field :: "string option"
  body :: "'b Any option"
  disable_field :: "string option"

text \<open>
  \<^verbatim>\<open>mockConfigData\<close> is a plain object used as a dictionary from rule keys to
  rules. It is modelled by its properties in creation order, the order in which
  \<^verbatim>\<open>for (key in ...)\<close> visits string keys that are not array indices; a rule key
  is the \<^verbatim>\<open>key\<close> of a \<^verbatim>\<open>MockItem\<close>.
\<close>

type_synonym 'b MockConfigData = "(string \<times> 'b MockItem) list"

record 'b Mocker =
  mockConfigData :: "'b MockConfigData"
  disabled :: bool
  log :: bool

section \<open>String operations\<close>

text \<open>A template literal \<^verbatim>\<open>`${x}`\<close> of a string or \<^verbatim>\<open>undefined\<close>.\<close>

definition template :: "string option \<Rightarrow> string" where
  "template x = (case x of None \<Rightarrow> ''undefined'' | Some s \<Rightarrow> s)"

text \<open>\<^verbatim>\<open>toLowerCase\<close>, on the letters A to Z.\<close>

definition toLowerCaseChar :: "char \<Rightarrow> char" where
  "toLowerCaseChar c =
     (case map_of (zip ''ABCDEFGHIJKLMNOPQRSTUVWXYZ'' ''abcdefghijklmnopqrstuvwxyz'') c of
        None \<Rightarrow> c
      | Some lower \<Rightarrow> lower)"

definition toLowerCase :: "string \<Rightarrow> string" where
  "toLowerCase s = map toLowerCaseChar s"

text \<open>
  \<^verbatim>\<open>s.indexOf(search)\<close>: the first position at which \<^verbatim>\<open>search\<close> occurs in
  \<^verbatim>\<open>s\<close>, or \<open>-1\<close>. \<open>indexOfFrom\<close> scans the rest of the string from position \<open>i\<close>.
\<close>

fun indexOfFrom :: "string \<Rightarrow> nat \<Rightarrow> string \<Rightarrow> int" where
  "indexOfFrom search i [] = (if search = [] then int i else - 1)"
| "indexOfFrom search i (c # cs) =
     (if prefix search (c # cs) then int i else indexOfFrom search (Suc i) cs)"

definition indexOf :: "string \<Rightarrow> string \<Rightarrow> int" where
  "indexOf s search = indexOfFrom search 0 s"

text \<open>
  The string that \<^verbatim>\<open>indexOf\<close> makes of its argument \<^verbatim>\<open>info.url\<close>: a string is
  itself, a regular expression is \<^verbatim>\<open>/source/flags\<close>, \<^verbatim>\<open>undefined\<close> is
  \<^verbatim>\<open>"undefined"\<close>.
\<close>

definition urlToString :: "Url option \<Rightarrow> string" where
  "urlToString u =
     (case u of None \<Rightarrow> ''undefined''
      | Some (UrlString s) \<Rightarrow> s
      | Some (UrlRegExp re) \<Rightarrow> regExpToString re)"

section \<open>matchMockItem\<close>

text \<open>
  One pass of the loop body, inside \<^verbatim>\<open>try\<close>: it returns the rule, goes on to the
  next key, or throws.
\<close>

datatype 'b Completion = Return "'b MockItem" | Continue

definition tryBody :: "string \<Rightarrow> string \<Rightarrow> 'b MockItem \<Rightarrow> Exception + 'b Completion" where
  "tryBody reqUrl requestMethod info =
     (if disable_field info = Some ''yes''
         \<or> (case times_field info of None \<Rightarrow> False | Some t \<Rightarrow> le_zero t)
      then Inr Continue
      else
        let method' = toLowerCase (template (method_field info)) in
        if method' \<noteq> ''any'' \<and> method' \<noteq> toLowerCase requestMethod
        then Inr Continue
        else
          let byIndexOf =
                (if indexOf reqUrl (urlToString (url info)) \<noteq> - 1
                 then Inr (Return info) else Inr Continue)
          in case url info of
               Some (UrlRegExp re) \<Rightarrow>
                 (case test re reqUrl of
                    Inl e \<Rightarrow> Inl e
                  | Inr True \<Rightarrow> Inr (Return info)
                  | Inr False \<Rightarrow> byIndexOf)
             | _ \<Rightarrow> byIndexOf)"

text \<open>\<^verbatim>\<open>try { body } catch(e) { handler }\<close>.\<close>

definition tryCatch :: "Exception + 'a \<Rightarrow> (Exception \<Rightarrow> Exception + 'a) \<Rightarrow> Exception + 'a" where
  "tryCatch tried handler = (case tried of Inl e \<Rightarrow> handler e | Inr v \<Rightarrow> Inr v)"

text \<open>
  The loop \<^verbatim>\<open>for (let key in this.mockConfigData)\<close>; \<open>info\<close> is
  \<^verbatim>\<open>this.mockConfigData[key]\<close>. The \<^verbatim>\<open>catch\<close> block is empty, so after an
  exception the loop goes on with the next key.
\<close>

fun matchLoop :: "string \<Rightarrow> string \<Rightarrow> 'b MockConfigData \<Rightarrow> Exception + 'b MockItem option" where
  "matchLoop reqUrl requestMethod [] = Inr None"
| "matchLoop reqUrl requestMethod ((key', info) # rest) =
     (case tryCatch (tryBody reqUrl requestMethod info) (\<lambda>e. Inr Continue) of
        Inl e \<Rightarrow> Inl e
      | Inr (Return item) \<Rightarrow> Inr (Some item)
      | Inr Continue \<Rightarrow> matchLoop reqUrl requestMethod rest)"

text \<open>\<^verbatim>\<open>reqMethod || 'get'\<close>: \<^verbatim>\<open>undefined\<close> and the empty string are falsy.\<close>

definition orGet :: "string option \<Rightarrow> string" where
  "orGet reqMethod =
     (case reqMethod of None \<Rightarrow> ''get'' | Some m \<Rightarrow> if m = [] then ''get'' else m)"

definition matchMockItem ::
    "'b Mocker \<Rightarrow> string \<Rightarrow> string option \<Rightarrow> Exception + 'b MockItem option" where
  "matchMockItem this reqUrl reqMethod =
     (if disabled this then Inr None
      else
        let requestMethod = orGet reqMethod
        in matchLoop reqUrl requestMethod (mockConfigData this))"

section \<open>Registration\<close>

text \<open>
  \<^verbatim>\<open>obj[key] = val\<close>: an existing property keeps its place and gets the new
  value, a new property comes last.
\<close>

fun setProperty :: "(string \<times> 'v) list \<Rightarrow> string \<Rightarrow> 'v \<Rightarrow> (string \<times> 'v) list" where
  "setProperty [] k v = [(k, v)]"
| "setProperty ((k', v') # rest) k v =
     (if k' = k then (k, v) # rest else (k', v') # setProperty rest k v)"

definition addMockItem :: "'b Mocker \<Rightarrow> string \<Rightarrow> 'b MockItem \<Rightarrow> 'b Mocker" where
  "addMockItem this k val = this\<lparr>mockConfigData := setProperty (mockConfigData this) k val\<rparr>"

text \<open>
  \<^verbatim>\<open>mock\<close>. The class \<^verbatim>\<open>MockItem\<close> is imported from \<^verbatim>\<open>./mock-item\<close>; its
  constructor is the parameter \<open>newMockItem\<close>. The result \<open>None\<close> is the value
  \<^verbatim>\<open>false\<close>; \<^verbatim>\<open>!mockItem.key\<close> holds for \<^verbatim>\<open>undefined\<close> and for the empty
  string.
\<close>

definition mock ::
    "('b MockItem \<Rightarrow> 'b MockItem) \<Rightarrow> 'b Mocker \<Rightarrow> 'b MockItem \<Rightarrow> 'b MockItem option \<times> 'b Mocker" where
  "mock newMockItem this mockItemInfo =
     (let mockItem = newMockItem mockItemInfo in
      case key mockItem of
        None \<Rightarrow> (None, this)
      | Some k \<Rightarrow>
          if k = [] then (None, this)
          else (Some mockItem, addMockItem this k mockItem))"

text \<open>
  \<^verbatim>\<open>setMockData\<close>: the argument is an object, given by its properties in the
  order of \<^verbatim>\<open>for (let key in mockConfigData)\<close>.
\<close>

fun setMockData ::
    "('b MockItem \<Rightarrow> 'b MockItem) \<Rightarrow> 'b Mocker \<Rightarrow> 'b MockConfigData \<Rightarrow> 'b Mocker" where
  "setMockData newMockItem this [] = this"
| "setMockData newMockItem this ((key', info) # rest) =
     setMockData newMockItem (snd (mock newMockItem this info)) rest"

definition reset :: "('b MockItem \<Rightarrow> 'b MockItem) \<Rightarrow> 'b Mocker \<Rightarrow> 'b Mocker" where
  "reset newMockItem this = setMockData newMockItem this []"

text \<open>
  The switches. \<^verbatim>\<open>groupLog\<close> only reads \<^verbatim>\<open>log\<close> and writes to the console,
  which is not part of the state.
\<close>

definition enable :: "'b Mocker \<Rightarrow> 'b Mocker" where
  "enable this = this\<lparr>disabled := False\<rparr>"

definition disable :: "'b Mocker \<Rightarrow> 'b Mocker" where
  "disable this = this\<lparr>disabled := True\<rparr>"

definition disableLog :: "'b Mocker \<Rightarrow> 'b Mocker" where
  "disableLog this = this\<lparr>log := False\<rparr>"

definition enableLog :: "'b Mocker \<Rightarrow> 'b Mocker" where
  "enableLog this = this\<lparr>log := True\<rparr>"

section \<open>The registration helpers\<close>

text \<open>
  The default value of the parameter \<^verbatim>\<open>opts\<close> stands in when the caller passes no
  options object at all (\<open>None\<close>); an options object that is passed is used as it is,
  and a field it lacks is \<^verbatim>\<open>undefined\<close> after the destructuring. The helpers
  drop the result of \<^verbatim>\<open>mock\<close> and return \<^verbatim>\<open>this\<close>.
\<close>

definition defaultOpts :: MockItemExt where
  "defaultOpts =
     \<lparr>delay = Some (Finite 0), status = Some (Finite 200), header = Some [],
      times_field = Some Infinity\<rparr>"

definition optsOrDefault :: "MockItemExt option \<Rightarrow> MockItemExt" where
  "optsOrDefault opts = (case opts of None \<Rightarrow> defaultOpts | Some given \<Rightarrow> given)"

definition get ::
    "('b MockItem \<Rightarrow> 'b MockItem) \<Rightarrow> 'b Mocker \<Rightarrow> Url \<Rightarrow> 'b Any option \<Rightarrow> MockItemExt option
      \<Rightarrow> 'b Mocker" where
  "get newMockItem this url' body' opts =
     (let opts' = optsOrDefault opts in
      snd (mock newMockItem this
        \<lparr>delay = delay opts', status = status opts', header = header opts',
         times_field = times_field opts', key = None, url = Some url',
         method_field = Some ''get'', body = body', disable_field = None\<rparr>))"

definition post ::
    "('b MockItem \<Rightarrow> 'b MockItem) \<Rightarrow> 'b Mocker \<Rightarrow> Url \<Rightarrow> 'b Any option \<Rightarrow> MockItemExt option
      \<Rightarrow> 'b Mocker" where
  "post newMockItem this url' body' opts =
     (let opts' = optsOrDefault opts in
      snd (mock newMockItem this
        \<lparr>delay = delay opts', status = status opts', header = header opts',
         times_field = times_field opts', key = None, url = Some url',
         method_field = Some ''post'', body = body', disable_field = None\<rparr>))"

definition put ::
    "('b MockItem \<Rightarrow> 'b MockItem) \<Rightarrow> 'b Mocker \<Rightarrow> Url \<Rightarrow> 'b Any option \<Rightarrow> MockItemExt option
      \<Rightarrow> 'b Mocker" where
  "put newMockItem this url' body' opts =
     (let opts' = optsOrDefault opts in
      snd (mock newMockItem this
        \<lparr>delay = delay opts', status = status opts', header = header opts',
         times_field = times_field opts', key = None, url = Some url',
         method_field = Some ''put'', body = body', disable_field = None\<rparr>))"

definition patch ::
    "('b MockItem \<Rightarrow> 'b MockItem) \<Rightarrow> 'b Mocker \<Rightarrow> Url \<Rightarrow> 'b Any option \<Rightarrow> MockItemExt option
      \<Rightarrow> 'b Mocker" where
  "patch newMockItem this url' body' opts =
     (let opts' = optsOrDefault opts in
      snd (mock newMockItem this
        \<lparr>delay = delay opts', status = status opts', header = header opts',
         times_field = times_field opts', key = None, url = Some url',
         method_field = Some ''patch'', body = body', disable_field = None\<rparr>))"

definition delete ::
    "('b MockItem \<Rightarrow> 'b MockItem) \<Rightarrow> 'b Mocker \<Rightarrow> Url \<Rightarrow> 'b Any option \<Rightarrow> MockItemExt option
      \<Rightarrow> 'b Mocker" where
  "delete newMockItem this url' body' opts =
     (let opts' = optsOrDefault opts in
      snd (mock newMockItem this
        \<lparr>delay = delay opts', status = status opts', header = header opts',
         times_field = times_field opts', key = None, url = Some url',
         method_field = Some ''delete'', body = body', disable_field = None\<rparr>))"

definition head ::
    "('b MockItem \<Rightarrow> 'b MockItem) \<Rightarrow> 'b Mocker \<Rightarrow> Url \<Rightarrow> MockItemExt option \<Rightarrow> 'b Mocker" where
  "head newMockItem this url' opts =
     (let opts' = optsOrDefault opts in
      snd (mock newMockItem this
        \<lparr>delay = delay opts', status = status opts', header = header opts',
         times_field = times_field opts', key = None, url = Some url',
         method_field = Some ''head'', body = Some (AnyString []), disable_field = None\<rparr>))"

definition any ::
    "('b MockItem \<Rightarrow> 'b MockItem) \<Rightarrow> 'b Mocker \<Rightarrow> Url \<Rightarrow> 'b Any option \<Rightarrow> MockItemExt option
      \<Rightarrow> 'b Mocker" where
  "any newMockItem this url' body' opts =
     (let opts' = optsOrDefault opts in
      snd (mock newMockItem this
        \<lparr>delay = delay opts', status = status opts', header = header opts',
         times_field = times_field opts', key = None, url = Some url',
         method_field = Some ''any'', body = body', disable_field = None\<rparr>))"

section \<open>The constructor\<close>

text \<open>
  Mockers live in a store and are handled by reference; \<open>Mocker_instance\<close> is the
  static field \<^verbatim>\<open>Mocker.instance\<close>. When the static field is set the constructor
  returns the object it refers to, and the object just allocated for \<^verbatim>\<open>this\<close> is
  dropped, so the store does not record it. Otherwise \<^verbatim>\<open>this\<close> has the fields'
  initial values, \<^verbatim>\<open>disabled = false\<close> and \<^verbatim>\<open>log = false\<close>, and the
  constructor sets the static field, \<^verbatim>\<open>log\<close> and \<^verbatim>\<open>mockConfigData\<close>. The
  result of \<^verbatim>\<open>isNodejs()\<close> is a parameter.
\<close>

type_synonym ref = nat

record 'b Store =
  Mocker_instance :: "ref option"
  objects :: "ref \<Rightarrow> 'b Mocker option"
  nextRef :: ref

definition newMocker :: "bool \<Rightarrow> 'b Store \<Rightarrow> ref \<times> 'b Store" where
  "newMocker isNodejs st =
     (case Mocker_instance st of
        Some existing \<Rightarrow> (existing, st)
      | None \<Rightarrow>
          let this = nextRef st in
          (this,
           st\<lparr>Mocker_instance := Some this,
              objects := (objects st)(this \<mapsto>
                \<lparr>mockConfigData = [], disabled = False, log = \<not> isNodejs\<rparr>),
              nextRef := Suc this\<rparr>))"

definition getInstance :: "bool \<Rightarrow> 'b Store \<Rightarrow> ref \<times> 'b Store" where
  "getInstance isNodejs st = newMocker isNodejs st"

text \<open>
  A call of a method of the mocker through a reference: the method updates the object
  the reference points to. No method assigns the static field.
\<close>

definition invoke :: "ref \<Rightarrow> ('b Mocker \<Rightarrow> 'b Mocker) \<Rightarrow> 'b Store \<Rightarrow> 'b Store" where
  "invoke r m st = st\<lparr>objects := (objects st)(r := map_option m (objects st r))\<rparr>"

fun invokeAll :: "(ref \<times> ('b Mocker \<Rightarrow> 'b Mocker)) list \<Rightarrow> 'b Store \<Rightarrow> 'b Store" where
  "invokeAll [] st = st"
| "invokeAll ((r, m) # calls) st = invokeAll calls (invoke r m st)"

text \<open>
  What a sequence of calls does to the object behind the reference \<open>r\<close>: the calls
  through \<open>r\<close>, in order.
\<close>

fun applyCalls :: "ref \<Rightarrow> (ref \<times> ('b Mocker \<Rightarrow> 'b Mocker)) list \<Rightarrow> 'b Mocker \<Rightarrow> 'b Mocker" where
  "applyCalls r [] obj = obj"
| "applyCalls r ((r', m) # calls) obj = applyCalls r calls (if r' = r then m obj else obj)"

text \<open>The static field, when it is set, refers to an object of the store.\<close>

definition storeOk :: "'b Store \<Rightarrow> bool" where
  "storeOk st = (case Mocker_instance st of None \<Rightarrow> True | Some r \<Rightarrow> objects st r \<noteq> None)"

section \<open>The rule constructor, from the specification\<close>

text \<open>
  Modelled from the spec: the key of a rule, which the class \<^verbatim>\<open>MockItem\<close> of
  \<^verbatim>\<open>./mock-item\<close> (not among the sources) computes. The specification says that
  the key is derived from the url matcher and the method; here it is the text of the
  url matcher, a dash and the method.
\<close>

definition specKey :: "Url \<Rightarrow> string option \<Rightarrow> string" where
  "specKey u m = urlToString (Some u) @ ''-'' @ template m"

text \<open>
  Modelled from the spec: the constructor of the class \<^verbatim>\<open>MockItem\<close> of
  \<^verbatim>\<open>./mock-item\<close> (not among the sources), which normalizes a rule specification.
  The specification says that a specification with no derivable key is rejected, and
  that the defaults are \<^verbatim>\<open>delay = 0\<close>, \<^verbatim>\<open>status = 200\<close>,
  \<^verbatim>\<open>times = Infinity\<close> and \<^verbatim>\<open>header = {}\<close>. Here a key is derivable when a
  url matcher is given, and a value that is given is kept.
\<close>

definition specMockItem :: "'b MockItem \<Rightarrow> 'b MockItem" where
  "specMockItem info =
     (case url info of
        None \<Rightarrow> info\<lparr>key := None\<rparr>
      | Some u \<Rightarrow>
          \<lparr>delay = Some (case delay info of None \<Rightarrow> Finite 0 | Some d \<Rightarrow> d),
           status = Some (case status info of None \<Rightarrow> Finite 200 | Some c \<Rightarrow> c),
           header = Some (case header info of None \<Rightarrow> [] | Some h \<Rightarrow> h),
           times_field = Some (case times_field info of None \<Rightarrow> Infinity | Some t \<Rightarrow> t),
           key = Some (specKey u (method_field info)),
           url = Some u,
           method_field = method_field info,
           body = body info,
           disable_field = disable_field info\<rparr>)"

section \<open>Predicates of the statements\<close>

text \<open>
  A rule's criteria match a request when the loop body, run on the rule, returns it.
\<close>

definition criteriaMatch :: "string \<Rightarrow> string option \<Rightarrow> 'b MockItem \<Rightarrow> bool" where
  "criteriaMatch reqUrl reqMethod info =
     (tryBody reqUrl (orGet reqMethod) info = Inr (Return info))"

text \<open>The condition under which the loop body skips a rule at once.\<close>

definition skipped :: "'b MockItem \<Rightarrow> bool" where
  "skipped info =
     (disable_field info = Some ''yes''
      \<or> (case times_field info of None \<Rightarrow> False | Some t \<Rightarrow> le_zero t))"

text \<open>The method test of the loop body passes.\<close>

definition methodCompatible :: "string \<Rightarrow> 'b MockItem \<Rightarrow> bool" where
  "methodCompatible requestMethod info =
     (toLowerCase (template (method_field info)) = ''any''
      \<or> toLowerCase (template (method_field info)) = toLowerCase requestMethod)"

text \<open>
  The url test of the loop body: the result of \<^verbatim>\<open>test\<close> for a regular expression
  that tests true, else whether \<^verbatim>\<open>indexOf\<close> finds the url in the request url.
\<close>

definition urlTest :: "string \<Rightarrow> 'b MockItem \<Rightarrow> Exception + bool" where
  "urlTest reqUrl info =
     (let contained = (indexOf reqUrl (urlToString (url info)) \<noteq> - 1)
      in case url info of
           Some (UrlRegExp re) \<Rightarrow>
             (case test re reqUrl of
                Inl e \<Rightarrow> Inl e
              | Inr True \<Rightarrow> Inr True
              | Inr False \<Rightarrow> Inr contained)
         | _ \<Rightarrow> Inr contained)"

text \<open>
  A candidate: a rule with neither \<^verbatim>\<open>disable === 'yes'\<close> nor a defined
  \<^verbatim>\<open>times\<close> that is at most 0, which passes the method test and the url test.
\<close>

definition candidate :: "string \<Rightarrow> string \<Rightarrow> 'b MockItem \<Rightarrow> bool" where
  "candidate reqUrl requestMethod info =
     (disable_field info \<noteq> Some ''yes''
      \<and> (case times_field info of None \<Rightarrow> True | Some t \<Rightarrow> \<not> le_zero t)
      \<and> methodCompatible requestMethod info
      \<and> urlTest reqUrl info = Inr True)"

text \<open>The test \<^verbatim>\<open>!mockItem.key\<close> of \<^verbatim>\<open>mock\<close>.\<close>

definition noKey :: "'b MockItem \<Rightarrow> bool" where
  "noKey item = (case key item of None \<Rightarrow> True | Some k \<Rightarrow> k = [])"

text \<open>
  A registry is well formed when its keys are distinct, as the properties of an object
  are, and every rule is stored under its own key, as \<^verbatim>\<open>mock\<close> stores it.
\<close>

definition wellFormed :: "'b Mocker \<Rightarrow> bool" where
  "wellFormed this =
     (distinct (map fst (mockConfigData this))
      \<and> (\<forall>(k, rule) \<in> set (mockConfigData this). key rule = Some k))"

text \<open>
  What the caller of a helper supplied for an option: nothing when there is no options
  object, else the field of the object.
\<close>

definition supplied :: "(MockItemExt \<Rightarrow> 'a option) \<Rightarrow> MockItemExt option \<Rightarrow> 'a option" where
  "supplied field opts = (case opts of None \<Rightarrow> None | Some given \<Rightarrow> field given)"

definition carriesDefaults :: "MockItemExt option \<Rightarrow> string \<Rightarrow> 'b MockItem option \<Rightarrow> bool" where
  "carriesDefaults opts m registered =
     (case registered of
        None \<Rightarrow> False
      | Some rule \<Rightarrow>
          method_field rule = Some m
          \<and> (supplied delay opts = None \<longrightarrow> delay rule = Some (Finite 0))
          \<and> (supplied status opts = None \<longrightarrow> status rule = Some (Finite 200))
          \<and> (supplied times_field opts = None \<longrightarrow> times_field rule = Some Infinity)
          \<and> (supplied header opts = None \<longrightarrow> header rule = Some []))"

section \<open>Example rules\<close>

text \<open>
  The regular expressions \<^verbatim>\<open>/health$/\<close> and \<^verbatim>\<open>/user$/\<close>, and an object
  whose \<^verbatim>\<open>test\<close> throws.
\<close>

definition healthRe :: RegExp where
  "healthRe = \<lparr>source = ''health$'', flags = [], test = (\<lambda>s. Inr (suffix ''health'' s))\<rparr>"

definition userEndRe :: RegExp where
  "userEndRe = \<lparr>source = ''user$'', flags = [], test = (\<lambda>s. Inr (suffix ''user'' s))\<rparr>"

definition throwingRe :: RegExp where
  "throwingRe =
     \<lparr>source = ''x'', flags = [], test = (\<lambda>s. Inl (Exception ''TypeError''))\<rparr>"

definition mkRule :: "Url \<Rightarrow> string \<Rightarrow> Number \<Rightarrow> Number \<Rightarrow> string option \<Rightarrow> unit MockItem" where
  "mkRule u m code uses dis =
     \<lparr>delay = Some (Finite 0), status = Some code, header = Some [],
      times_field = Some uses, key = Some (specKey u (Some m)), url = Some u,
      method_field = Some m, body = None, disable_field = dis\<rparr>"

definition healthRule :: "unit MockItem" where
  "healthRule = mkRule (UrlRegExp healthRe) ''any'' (Finite 204) Infinity None"

definition apiRule :: "unit MockItem" where
  "apiRule = mkRule (UrlString ''/api'') ''any'' (Finite 200) Infinity None"

definition userRule :: "unit MockItem" where
  "userRule = mkRule (UrlString ''/api/user'') ''get'' (Finite 200) (Finite 2) None"

definition userEndRule :: "unit MockItem" where
  "userEndRule = mkRule (UrlRegExp userEndRe) ''any'' (Finite 200) Infinity None"

definition disabledRule :: "unit MockItem" where
  "disabledRule = mkRule (UrlString ''/api'') ''any'' (Finite 200) Infinity (Some ''yes'')"

definition exhaustedRule :: "unit MockItem" where
  "exhaustedRule = mkRule (UrlString ''/api/user'') ''any'' (Finite 200) (Finite 0) None"

definition throwingRule :: "unit MockItem" where
  "throwingRule = mkRule (UrlRegExp throwingRe) ''any'' (Finite 200) Infinity None"

definition registry :: "unit MockItem list \<Rightarrow> unit Mocker" where
  "registry rules =
     \<lparr>mockConfigData = map (\<lambda>r. (template (key r), r)) rules, disabled = False, log = False\<rparr>"

definition emptyStore :: "unit Store" where
  "emptyStore = \<lparr>Mocker_instance = None, objects = (\<lambda>r. None), nextRef = 0\<rparr>"

definition userInfo :: "Number \<Rightarrow> unit MockItem" where
  "userInfo code =
     \<lparr>delay = None, status = Some code, header = None, times_field = None, key = None,
      url = Some (UrlString ''/api/user''), method_field = Some ''get'', body = None,
      disable_field = None\<rparr>"

definition noUrlInfo :: "unit MockItem" where
  "noUrlInfo =
     \<lparr>delay = None, status = None, header = None, times_field = None, key = None,
      url = None, method_field = Some ''get'', body = None, disable_field = None\<rparr>"

definition healthInfo :: "unit MockItem" where
  "healthInfo =
     \<lparr>delay = None, status = Some (Finite 204), header = None, times_field = None, key = None,
      url = Some (UrlString ''/health''), method_field = Some ''any'', body = None,
      disable_field = None\<rparr>"

definition statusOnly :: "Number \<Rightarrow> MockItemExt" where
  "statusOnly code = \<lparr>delay = None, status = Some code, header = None, times_field = None\<rparr>"

section \<open>Lemmas\<close>

lemmas example_defs =
  healthRe_def userEndRe_def throwingRe_def mkRule_def healthRule_def apiRule_def userRule_def
  userEndRule_def disabledRule_def exhaustedRule_def throwingRule_def registry_def
  emptyStore_def userInfo_def noUrlInfo_def healthInfo_def statusOnly_def specKey_def

lemmas eval_defs =
  matchMockItem_def orGet_def tryCatch_def tryBody_def Let_def toLowerCase_def
  toLowerCaseChar_def template_def indexOf_def urlToString_def regExpToString_def
  suffix_to_prefix

subsection \<open>indexOf finds substrings\<close>

lemma indexOfFrom_range: "indexOfFrom search i s = - 1 \<or> int i \<le> indexOfFrom search i s"
  by (induction s arbitrary: i) (auto, force)

lemma indexOfFrom_found_iff: "indexOfFrom search i s \<noteq> - 1 \<longleftrightarrow> sublist search s"
proof (induction s arbitrary: i)
  case Nil
  then show ?case by simp
next
  case (Cons c cs)
  show ?case
  proof (cases "prefix search (c # cs)")
    case True
    then show ?thesis by (auto simp: sublist_Cons_right)
  next
    case False
    then show ?thesis using Cons.IH [of "Suc i"] by (simp add: sublist_Cons_right)
  qed
qed

lemma indexOf_found_iff: "indexOf s search \<noteq> - 1 \<longleftrightarrow> (\<exists>before after. s = before @ search @ after)"
  by (simp add: indexOf_def indexOfFrom_found_iff sublist_def)

subsection \<open>The loop\<close>

lemma tryBody_Return_same: "tryBody reqUrl requestMethod info = Inr (Return item) \<Longrightarrow> item = info"
  by (auto simp: tryBody_def Let_def split: if_splits option.splits Url.splits sum.splits bool.splits)

lemma tryBody_skipped: "skipped info \<Longrightarrow> tryBody reqUrl requestMethod info = Inr Continue"
  by (simp add: tryBody_def skipped_def)

lemma matchLoop_step_Return:
  "tryBody reqUrl requestMethod info = Inr (Return info) \<Longrightarrow>
   matchLoop reqUrl requestMethod ((k, info) # rest) = Inr (Some info)"
  by (simp add: tryCatch_def)

lemma matchLoop_step_throw:
  "tryBody reqUrl requestMethod info = Inl e \<Longrightarrow>
   matchLoop reqUrl requestMethod ((k, info) # rest) = matchLoop reqUrl requestMethod rest"
  by (simp add: tryCatch_def)

lemma matchLoop_step_other:
  "tryBody reqUrl requestMethod info \<noteq> Inr (Return info) \<Longrightarrow>
   matchLoop reqUrl requestMethod ((k, info) # rest) = matchLoop reqUrl requestMethod rest"
  by (auto simp: tryCatch_def split: sum.splits Completion.splits dest: tryBody_Return_same)

lemma string_url_matches_iff_contains:
  assumes "\<not> skipped info" and "methodCompatible requestMethod info"
    and "url info = Some (UrlString p)"
  shows "tryBody reqUrl requestMethod info = Inr (Return info)
         \<longleftrightarrow> (\<exists>before after. reqUrl = before @ p @ after)"
  using assms
  by (auto simp: tryBody_def skipped_def methodCompatible_def Let_def urlToString_def
        indexOf_found_iff)

lemma regexp_url_matches_iff:
  assumes "\<not> skipped info" and "methodCompatible requestMethod info"
    and "url info = Some (UrlRegExp re)" and "test re reqUrl = Inr tested"
  shows "tryBody reqUrl requestMethod info = Inr (Return info)
         \<longleftrightarrow> tested \<or> (\<exists>before after. reqUrl = before @ regExpToString re @ after)"
  using assms
  by (cases tested)
     (auto simp: tryBody_def skipped_def methodCompatible_def Let_def urlToString_def
        indexOf_found_iff)

declare matchLoop.simps(2) [simp del]

lemma matchLoop_first:
  "i < length cfg \<Longrightarrow>
   tryBody reqUrl requestMethod (snd (cfg ! i)) = Inr (Return (snd (cfg ! i))) \<Longrightarrow>
   \<forall>h<i. tryBody reqUrl requestMethod (snd (cfg ! h)) \<noteq> Inr (Return (snd (cfg ! h))) \<Longrightarrow>
   matchLoop reqUrl requestMethod cfg = Inr (Some (snd (cfg ! i)))"
proof (induction cfg arbitrary: i)
  case Nil
  then show ?case by simp
next
  case (Cons entry cfg)
  obtain k info where entry: "entry = (k, info)" by (cases entry)
  show ?case
  proof (cases i)
    case 0
    with Cons.prems entry show ?thesis by (simp add: matchLoop_step_Return)
  next
    case (Suc i')
    from Cons.prems(3) Suc have "tryBody reqUrl requestMethod (snd ((entry # cfg) ! 0)) \<noteq> Inr (Return (snd ((entry # cfg) ! 0)))"
      by blast
    with entry have skip: "matchLoop reqUrl requestMethod (entry # cfg) = matchLoop reqUrl requestMethod cfg"
      by (simp add: matchLoop_step_other)
    have "\<forall>h<i'. tryBody reqUrl requestMethod (snd (cfg ! h)) \<noteq> Inr (Return (snd (cfg ! h)))"
    proof (intro allI impI)
      fix h assume "h < i'"
      then have "Suc h < i" using Suc by simp
      with Cons.prems(3) show "tryBody reqUrl requestMethod (snd (cfg ! h)) \<noteq> Inr (Return (snd (cfg ! h)))"
        by fastforce
    qed
    with Cons.IH [of i'] Cons.prems Suc skip show ?thesis by simp
  qed
qed

lemma matchLoop_never_throws: "\<exists>result. matchLoop reqUrl requestMethod cfg = Inr result"
proof (induction cfg)
  case Nil
  show ?case by simp
next
  case (Cons entry cfg)
  then show ?case
    by (cases entry) (auto simp: matchLoop.simps(2) tryCatch_def split: sum.splits Completion.splits)
qed

lemma matchLoop_result_mem:
  "matchLoop reqUrl requestMethod cfg = Inr (Some item) \<Longrightarrow>
   \<exists>k. (k, item) \<in> set cfg \<and> tryBody reqUrl requestMethod item = Inr (Return item)"
proof (induction cfg)
  case Nil
  then show ?case by simp
next
  case (Cons entry cfg)
  obtain k info where entry: "entry = (k, info)" by (cases entry)
  show ?case
  proof (cases "tryBody reqUrl requestMethod info = Inr (Return info)")
    case True
    with Cons.prems entry show ?thesis by (auto simp: matchLoop_step_Return)
  next
    case False
    with Cons entry show ?thesis by (auto simp: matchLoop_step_other)
  qed
qed

lemma matchLoop_filter_skipped:
  "matchLoop reqUrl requestMethod (filter (\<lambda>(k, info). \<not> skipped info) cfg)
   = matchLoop reqUrl requestMethod cfg"
proof (induction cfg)
  case Nil
  show ?case by simp
next
  case (Cons entry cfg)
  obtain k info where entry: "entry = (k, info)" by (cases entry)
  show ?case
  proof (cases "skipped info")
    case True
    then have "tryBody reqUrl requestMethod info \<noteq> Inr (Return info)"
      by (simp add: tryBody_skipped)
    with True Cons.IH entry show ?thesis by (simp add: matchLoop_step_other)
  next
    case False
    show ?thesis
    proof (cases "tryBody reqUrl requestMethod info = Inr (Return info)")
      case True
      with False entry show ?thesis by (simp add: matchLoop_step_Return)
    next
      case other: False
      with False Cons.IH entry show ?thesis by (simp add: matchLoop_step_other)
    qed
  qed
qed

lemma tryBody_candidate:
  "tryBody reqUrl requestMethod info = Inr (Return info) \<longleftrightarrow> candidate reqUrl requestMethod info"
  by (auto simp: tryBody_def candidate_def urlTest_def methodCompatible_def Let_def
        split: option.splits Url.splits sum.splits bool.splits)

lemma matchLoop_find:
  "matchLoop reqUrl requestMethod cfg
   = Inr (map_option snd (find (\<lambda>(k, info). candidate reqUrl requestMethod info) cfg))"
proof (induction cfg)
  case Nil
  show ?case by simp
next
  case (Cons entry cfg)
  obtain k info where entry: "entry = (k, info)" by (cases entry)
  show ?case
  proof (cases "candidate reqUrl requestMethod info")
    case True
    then have "tryBody reqUrl requestMethod info = Inr (Return info)"
      by (simp add: tryBody_candidate)
    with True entry show ?thesis by (simp add: matchLoop_step_Return)
  next
    case False
    then have "tryBody reqUrl requestMethod info \<noteq> Inr (Return info)"
      by (simp add: tryBody_candidate)
    with False entry Cons.IH show ?thesis by (simp add: matchLoop_step_other)
  qed
qed

subsection \<open>Assignment to a property\<close>

lemma key_in_keys: "(k, v) \<in> set cfg \<Longrightarrow> k \<in> fst ` set cfg"
  by force

lemma setProperty_keys:
  "map fst (setProperty cfg k v) = (if k \<in> set (map fst cfg) then map fst cfg else map fst cfg @ [k])"
  by (induction cfg) (auto dest: key_in_keys)

lemma setProperty_new: "k \<notin> set (map fst cfg) \<Longrightarrow> setProperty cfg k v = cfg @ [(k, v)]"
  by (induction cfg) auto

lemma setProperty_lookup: "map_of (setProperty cfg k v) k = Some v"
  by (induction cfg) auto

lemma setProperty_lookup_other: "k' \<noteq> k \<Longrightarrow> map_of (setProperty cfg k v) k' = map_of cfg k'"
  by (induction cfg) auto

lemma setProperty_distinct:
  "distinct (map fst cfg) \<Longrightarrow> distinct (map fst (setProperty cfg k v))"
  by (simp add: setProperty_keys)

lemma setProperty_set:
  "set (setProperty cfg k v) \<subseteq> insert (k, v) (set cfg)"
  by (induction cfg) (auto split: if_splits)

lemma setProperty_only:
  "distinct (map fst cfg) \<Longrightarrow> filter (\<lambda>(k', r). k' = k) (setProperty cfg k v) = [(k, v)]"
proof (induction cfg)
  case Nil
  show ?case by simp
next
  case (Cons entry cfg)
  obtain k' v' where entry: "entry = (k', v')" by (cases entry)
  show ?case
  proof (cases "k' = k")
    case True
    with Cons.prems entry have "k \<notin> fst ` set cfg" by auto
    then have "filter (\<lambda>(k', r). k' = k) cfg = []"
      by (auto simp: filter_empty_conv dest: key_in_keys)
    with True entry show ?thesis by simp
  next
    case False
    with Cons entry show ?thesis by simp
  qed
qed

subsection \<open>Registration and construction\<close>

lemma mock_noKey: "noKey (N info) \<Longrightarrow> mock N this info = (None, this)"
  by (auto simp: mock_def noKey_def Let_def split: option.splits)

lemma mock_withKey:
  "key (N info) = Some k \<Longrightarrow> k \<noteq> [] \<Longrightarrow>
   mock N this info = (Some (N info), addMockItem this k (N info))"
  by (simp add: mock_def Let_def)

lemma mock_wellFormed:
  assumes "wellFormed this"
  shows "wellFormed (snd (mock N this info))"
proof (cases "noKey (N info)")
  case True
  with assms show ?thesis by (simp add: mock_noKey)
next
  case False
  then obtain k where k: "key (N info) = Some k" "k \<noteq> []"
    by (auto simp: noKey_def split: option.splits)
  have "\<forall>(k', rule) \<in> set (setProperty (mockConfigData this) k (N info)). key rule = Some k'"
    using assms k(1) setProperty_set [of "mockConfigData this" k "N info"]
    by (auto simp: wellFormed_def)
  with assms k show ?thesis
    by (simp add: mock_withKey addMockItem_def wellFormed_def setProperty_distinct)
qed

lemma mock_keys_prefix:
  "prefix (map fst (mockConfigData this)) (map fst (mockConfigData (snd (mock N this info))))"
  by (auto simp: mock_def Let_def addMockItem_def setProperty_keys split: option.splits)

lemma setMockData_wellFormed:
  "wellFormed this \<Longrightarrow> wellFormed (setMockData N this others)"
  by (induction N this others rule: setMockData.induct) (simp_all add: mock_wellFormed)

lemma setMockData_keys_prefix:
  "prefix (map fst (mockConfigData this)) (map fst (mockConfigData (setMockData N this others)))"
proof (induction N this others rule: setMockData.induct)
  case (1 N this)
  show ?case by simp
next
  case (2 N this key' info rest)
  have "prefix (map fst (mockConfigData this)) (map fst (mockConfigData (snd (mock N this info))))"
    by (rule mock_keys_prefix)
  with 2 show ?case using prefix_order.trans by fastforce
qed

lemma wellFormed_under_key:
  "wellFormed this \<Longrightarrow> (k', item) \<in> set (mockConfigData this) \<Longrightarrow> key item = Some k \<Longrightarrow>
   (k, item) \<in> set (filter (\<lambda>(k', r). k' = k) (mockConfigData this))"
  by (auto simp: wellFormed_def)

lemma specKey_not_empty: "specKey u m \<noteq> []"
  by (simp add: specKey_def)

lemma specMockItem_key: "url info = Some u \<Longrightarrow> key (specMockItem info) = Some (specKey u (method_field info))"
  by (simp add: specMockItem_def)

lemma helper_carries_defaults:
  "carriesDefaults opts m
     (map_of
        (mockConfigData (snd (mock specMockItem this
           \<lparr>delay = delay (optsOrDefault opts), status = status (optsOrDefault opts),
            header = header (optsOrDefault opts), times_field = times_field (optsOrDefault opts),
            key = None, url = Some u, method_field = Some m, body = b, disable_field = None\<rparr>)))
        (specKey u (Some m)))"
proof -
  let ?info = "\<lparr>delay = delay (optsOrDefault opts), status = status (optsOrDefault opts),
            header = header (optsOrDefault opts), times_field = times_field (optsOrDefault opts),
            key = None, url = Some u, method_field = Some m, body = b, disable_field = None\<rparr>"
  have "key (specMockItem ?info) = Some (specKey u (Some m))"
    by (simp add: specMockItem_key)
  then have "mock specMockItem this ?info
             = (Some (specMockItem ?info), addMockItem this (specKey u (Some m)) (specMockItem ?info))"
    using specKey_not_empty by (rule mock_withKey)
  then have "map_of (mockConfigData (snd (mock specMockItem this ?info))) (specKey u (Some m))
             = Some (specMockItem ?info)"
    by (simp add: addMockItem_def setProperty_lookup)
  moreover have "carriesDefaults opts m (Some (specMockItem ?info))"
    by (cases opts)
       (simp_all add: carriesDefaults_def supplied_def optsOrDefault_def defaultOpts_def
          specMockItem_def)
  ultimately show ?thesis by simp
qed

lemma reset_identity: "reset N this = this"
  by (simp add: reset_def)

lemma Mocker_instance_invoke: "Mocker_instance (invoke r m st) = Mocker_instance st"
  by (simp add: invoke_def)

lemma Mocker_instance_invokeAll: "Mocker_instance (invokeAll calls st) = Mocker_instance st"
  by (induction calls st rule: invokeAll.induct) (simp_all add: Mocker_instance_invoke)

lemma newMocker_sets_instance: "newMocker n st = (r, st') \<Longrightarrow> Mocker_instance st' = Some r"
  by (auto simp: newMocker_def Let_def split: option.splits)

lemma newMocker_existing: "Mocker_instance st = Some r \<Longrightarrow> newMocker n st = (r, st)"
  by (simp add: newMocker_def)

lemma objects_invoke:
  "objects (invoke r' m st) r = (if r' = r then map_option m (objects st r) else objects st r)"
  by (simp add: invoke_def)

lemma objects_invokeAll:
  "objects (invokeAll calls st) r = map_option (applyCalls r calls) (objects st r)"
proof (induction calls st rule: invokeAll.induct)
  case (1 st)
  show ?case by (simp add: option.map_ident)
next
  case (2 r' m calls st)
  then show ?case by (cases "objects st r") (simp_all add: objects_invoke)
qed

lemma newMocker_object:
  "storeOk st \<Longrightarrow> newMocker n st = (r, st') \<Longrightarrow> \<exists>obj. objects st' r = Some obj"
  by (auto simp: newMocker_def storeOk_def Let_def split: option.splits)

lemma newMocker_fresh:
  "Mocker_instance st = None \<Longrightarrow> newMocker n st = (r, st') \<Longrightarrow>
   objects st' r = Some \<lparr>mockConfigData = [], disabled = False, log = \<not> n\<rparr>"
  by (auto simp: newMocker_def Let_def)

section \<open>The claims\<close>

text \<open>
  C1. First match wins: when the mocker is enabled and the rules at positions \<open>i\<close>
  and \<open>j\<close> of the registry, \<open>i\<close> before \<open>j\<close>, both match the request, and no rule
  before \<open>i\<close> matches, \<^verbatim>\<open>matchMockItem\<close> returns the rule at position \<open>i\<close>: the
  one registered first, whichever is the more specific.
\<close>

theorem first_match_wins:
  assumes "\<not> disabled this"
    and "i < j" and "j < length (mockConfigData this)"
    and "criteriaMatch reqUrl reqMethod (snd (mockConfigData this ! i))"
    and "criteriaMatch reqUrl reqMethod (snd (mockConfigData this ! j))"
    and "\<forall>h<i. \<not> criteriaMatch reqUrl reqMethod (snd (mockConfigData this ! h))"
  shows "matchMockItem this reqUrl reqMethod = Inr (Some (snd (mockConfigData this ! i)))"
proof -
  from assms(2,3) have "i < length (mockConfigData this)" by simp
  with assms(1,4,6) show ?thesis
    by (simp add: matchMockItem_def criteriaMatch_def matchLoop_first)
qed

text \<open>
  At the registry of \<^verbatim>\<open>/health$/\<close>, \<^verbatim>\<open>/api\<close> and \<^verbatim>\<open>/api/user\<close>, the
  request \<^verbatim>\<open>GET /api/user\<close> gets the rule of \<^verbatim>\<open>/api\<close>, which was registered
  before the more specific one.
\<close>

theorem first_match_wins_witness:
  "\<not> disabled (registry [healthRule, apiRule, userRule])
   \<and> criteriaMatch ''/api/user'' (Some ''GET'') apiRule
   \<and> criteriaMatch ''/api/user'' (Some ''GET'') userRule
   \<and> \<not> criteriaMatch ''/api/user'' (Some ''GET'') healthRule
   \<and> matchMockItem (registry [healthRule, apiRule, userRule]) ''/api/user'' (Some ''GET'')
       = Inr (Some apiRule)"
proof -
  let ?mocker = "registry [healthRule, apiRule, userRule]"
  have enabled: "\<not> disabled ?mocker"
    by (simp add: registry_def)
  have len: "2 < length (mockConfigData ?mocker)"
    by (simp add: registry_def)
  have api: "criteriaMatch ''/api/user'' (Some ''GET'') apiRule"
    by (simp add: criteriaMatch_def example_defs eval_defs)
  have user: "criteriaMatch ''/api/user'' (Some ''GET'') userRule"
    by (simp add: criteriaMatch_def example_defs eval_defs)
  have health: "\<not> criteriaMatch ''/api/user'' (Some ''GET'') healthRule"
    by (simp add: criteriaMatch_def example_defs eval_defs)
  have at1: "snd (mockConfigData ?mocker ! 1) = apiRule"
    by (simp add: registry_def)
  have at2: "snd (mockConfigData ?mocker ! 2) = userRule"
    by (simp add: registry_def)
  have before: "\<forall>h<1. \<not> criteriaMatch ''/api/user'' (Some ''GET'') (snd (mockConfigData ?mocker ! h))"
    using health by (simp add: registry_def)
  have "matchMockItem ?mocker ''/api/user'' (Some ''GET'') = Inr (Some (snd (mockConfigData ?mocker ! 1)))"
    using first_match_wins [of ?mocker 1 2 "''/api/user''" "Some ''GET''"]
      enabled len api user before at1 at2
    by simp
  with enabled api user health at1 show ?thesis by simp
qed

text \<open>
  C2. The global switch: while \<^verbatim>\<open>disabled\<close> is set, as it is after
  \<^verbatim>\<open>disable\<close>, \<^verbatim>\<open>matchMockItem\<close> returns \<^verbatim>\<open>null\<close> for every request;
  \<^verbatim>\<open>enable\<close> after \<^verbatim>\<open>disable\<close> leaves the rules as they were and, on a
  mocker that was enabled, gives back the match of every request; the mocker that the
  constructor creates is enabled.
\<close>

theorem global_disable_gates_matching:
  "(disabled this \<longrightarrow> matchMockItem this reqUrl reqMethod = Inr None)
   \<and> disabled (disable this)
   \<and> \<not> disabled (enable this)
   \<and> (\<not> disabled this \<longrightarrow>
        matchMockItem (enable (disable this)) reqUrl reqMethod
        = matchMockItem this reqUrl reqMethod)
   \<and> mockConfigData (enable (disable this)) = mockConfigData this
   \<and> (Mocker_instance st = None \<longrightarrow>
        (\<exists>created. objects (snd (newMocker isNodejs st)) (fst (newMocker isNodejs st)) = Some created
           \<and> \<not> disabled created))"
  by (simp add: matchMockItem_def enable_def disable_def newMocker_def Let_def)

theorem global_disable_gates_matching_witness:
  "matchMockItem (registry [apiRule]) ''/api/user'' None = Inr (Some apiRule)
   \<and> disabled (disable (registry [apiRule]))
   \<and> matchMockItem (disable (registry [apiRule])) ''/api/user'' None = Inr None
   \<and> \<not> disabled (registry [apiRule])
   \<and> matchMockItem (enable (disable (registry [apiRule]))) ''/api/user'' None
       = Inr (Some apiRule)
   \<and> Mocker_instance emptyStore = None
   \<and> (\<exists>created. objects (snd (newMocker True emptyStore)) (fst (newMocker True emptyStore))
         = Some created \<and> \<not> disabled created)"
proof -
  have matched: "matchMockItem (registry [apiRule]) ''/api/user'' None = Inr (Some apiRule)"
    by (simp add: example_defs eval_defs matchLoop.simps(2))
  have enabled: "\<not> disabled (registry [apiRule])"
    by (simp add: registry_def)
  have switched: "disabled (disable (registry [apiRule]))"
    by (simp add: disable_def)
  have fresh: "Mocker_instance emptyStore = None"
    by (simp add: emptyStore_def)
  from global_disable_gates_matching
         [of "disable (registry [apiRule])" "''/api/user''" None emptyStore True] switched
  have gated: "matchMockItem (disable (registry [apiRule])) ''/api/user'' None = Inr None"
    by simp
  from global_disable_gates_matching
         [of "registry [apiRule]" "''/api/user''" None emptyStore True]
       matched enabled switched gated fresh
  show ?thesis by simp
qed

text \<open>
  C3. Skipped rules: a rule that \<^verbatim>\<open>matchMockItem\<close> returns has neither
  \<^verbatim>\<open>disable === 'yes'\<close> nor a defined \<^verbatim>\<open>times\<close> that is at most 0; the
  result is the one obtained from the registry without the skipped rules; and every
  other rule is a candidate in the order of the registry: with the mocker enabled, the
  result is the first rule of the registry that is not skipped and passes the method
  test and the url test, and \<^verbatim>\<open>null\<close> when there is none.
\<close>

theorem skipped_rules_never_returned:
  "(matchMockItem this reqUrl reqMethod = Inr (Some item) \<longrightarrow>
      disable_field item \<noteq> Some ''yes''
      \<and> (\<forall>t. times_field item = Some t \<longrightarrow> \<not> le_zero t))
   \<and> matchMockItem
        (this\<lparr>mockConfigData := filter (\<lambda>(k, info). \<not> skipped info) (mockConfigData this)\<rparr>)
        reqUrl reqMethod
      = matchMockItem this reqUrl reqMethod
   \<and> (\<not> disabled this \<longrightarrow>
        matchMockItem this reqUrl reqMethod
        = Inr (map_option snd
            (find (\<lambda>(k, info). candidate reqUrl (orGet reqMethod) info) (mockConfigData this))))"
proof (intro conjI)
  show "matchMockItem this reqUrl reqMethod = Inr (Some item) \<longrightarrow>
      disable_field item \<noteq> Some ''yes'' \<and> (\<forall>t. times_field item = Some t \<longrightarrow> \<not> le_zero t)"
  proof
    assume "matchMockItem this reqUrl reqMethod = Inr (Some item)"
    then have "matchLoop reqUrl (orGet reqMethod) (mockConfigData this) = Inr (Some item)"
      by (simp add: matchMockItem_def split: if_splits)
    then have "tryBody reqUrl (orGet reqMethod) item = Inr (Return item)"
      using matchLoop_result_mem by blast
    then have "\<not> skipped item"
      using tryBody_skipped by fastforce
    then show "disable_field item \<noteq> Some ''yes'' \<and> (\<forall>t. times_field item = Some t \<longrightarrow> \<not> le_zero t)"
      by (auto simp: skipped_def)
  qed
next
  show "matchMockItem
        (this\<lparr>mockConfigData := filter (\<lambda>(k, info). \<not> skipped info) (mockConfigData this)\<rparr>)
        reqUrl reqMethod
      = matchMockItem this reqUrl reqMethod"
    by (simp add: matchMockItem_def matchLoop_filter_skipped)
next
  show "\<not> disabled this \<longrightarrow>
        matchMockItem this reqUrl reqMethod
        = Inr (map_option snd
            (find (\<lambda>(k, info). candidate reqUrl (orGet reqMethod) info) (mockConfigData this)))"
    by (simp add: matchMockItem_def matchLoop_find)
qed

text \<open>
  At the registry of a disabled rule, an exhausted rule, the rule of
  \<^verbatim>\<open>/api/user\<close> with \<^verbatim>\<open>times = 2\<close> and the rule of \<^verbatim>\<open>/api\<close>, all four
  passing the method test and the url test of \<^verbatim>\<open>GET /api/user\<close>, the result is the
  third rule.
\<close>

theorem skipped_rules_never_returned_witness:
  "skipped disabledRule \<and> skipped exhaustedRule \<and> \<not> skipped userRule
   \<and> methodCompatible ''get'' disabledRule \<and> urlTest ''/api/user'' disabledRule = Inr True
   \<and> methodCompatible ''get'' exhaustedRule \<and> urlTest ''/api/user'' exhaustedRule = Inr True
   \<and> candidate ''/api/user'' ''get'' userRule \<and> candidate ''/api/user'' ''get'' apiRule
   \<and> \<not> disabled (registry [disabledRule, exhaustedRule, userRule, apiRule])
   \<and> matchMockItem (registry [disabledRule, exhaustedRule, userRule, apiRule])
        ''/api/user'' (Some ''get'')
       = Inr (Some userRule)
   \<and> disable_field userRule \<noteq> Some ''yes''
   \<and> times_field userRule = Some (Finite 2) \<and> \<not> le_zero (Finite 2)
   \<and> matchMockItem (registry [userRule, apiRule]) ''/api/user'' (Some ''get'')
       = Inr (Some userRule)"
proof -
  let ?mocker = "registry [disabledRule, exhaustedRule, userRule, apiRule]"
  have skips: "skipped disabledRule \<and> skipped exhaustedRule \<and> \<not> skipped userRule
               \<and> \<not> skipped apiRule"
    by (simp add: skipped_def example_defs)
  have tests:
    "methodCompatible ''get'' disabledRule \<and> urlTest ''/api/user'' disabledRule = Inr True
     \<and> methodCompatible ''get'' exhaustedRule \<and> urlTest ''/api/user'' exhaustedRule = Inr True"
    by (simp add: methodCompatible_def urlTest_def example_defs eval_defs)
  have cands:
    "\<not> candidate ''/api/user'' ''get'' disabledRule
     \<and> \<not> candidate ''/api/user'' ''get'' exhaustedRule
     \<and> candidate ''/api/user'' ''get'' userRule \<and> candidate ''/api/user'' ''get'' apiRule"
    by (simp add: candidate_def methodCompatible_def urlTest_def example_defs eval_defs)
  have enabled: "\<not> disabled ?mocker"
    by (simp add: registry_def)
  have first:
    "map_option snd
       (find (\<lambda>(k, info). candidate ''/api/user'' (orGet (Some ''get'')) info) (mockConfigData ?mocker))
     = Some userRule"
    using cands by (simp add: registry_def orGet_def)
  have filtered:
    "?mocker\<lparr>mockConfigData := filter (\<lambda>(k, info). \<not> skipped info) (mockConfigData ?mocker)\<rparr>
     = registry [userRule, apiRule]"
    using skips by (simp add: registry_def)
  have uses: "times_field userRule = Some (Finite 2)"
    by (simp add: example_defs)
  note at_user = skipped_rules_never_returned [of ?mocker "''/api/user''" "Some ''get''" userRule]
  from at_user enabled first
  have matched: "matchMockItem ?mocker ''/api/user'' (Some ''get'') = Inr (Some userRule)"
    by simp
  from at_user matched filtered
  have rest: "disable_field userRule \<noteq> Some ''yes''
              \<and> matchMockItem (registry [userRule, apiRule]) ''/api/user'' (Some ''get'')
                  = Inr (Some userRule)"
    by simp
  from skips tests cands enabled matched rest uses show ?thesis by simp
qed

text \<open>
  C4. The url test. For a rule that is not skipped and whose method is compatible, a
  string url matches exactly when the request url contains it (lemma
  \<open>string_url_matches_iff_contains\<close>). A regular expression whose \<^verbatim>\<open>test\<close> is
  false does not end the test: the loop body goes on to \<^verbatim>\<open>indexOf\<close> with the
  regular expression as argument, and the rule matches when the request url contains
  the text \<^verbatim>\<open>/source/flags\<close> (lemma \<open>regexp_url_matches_iff\<close>). The theorem runs
  the rule of \<^verbatim>\<open>/user$/\<close> on the request url \<^verbatim>\<open>/user$/profile\<close>, which does not
  end in \<^verbatim>\<open>user\<close>: the pattern tests false and the rule is returned.
\<close>

theorem regexp_rule_matches_by_indexOf:
  "test userEndRe ''/user$/profile'' = Inr False
   \<and> url userEndRule = Some (UrlRegExp userEndRe)
   \<and> criteriaMatch ''/user$/profile'' (Some ''get'') userEndRule
   \<and> matchMockItem (registry [userEndRule]) ''/user$/profile'' (Some ''get'')
       = Inr (Some userEndRule)"
  by (simp add: criteriaMatch_def example_defs eval_defs matchLoop.simps(2))

text \<open>
  C5. \<^verbatim>\<open>reset\<close> calls \<^verbatim>\<open>setMockData\<close> with an empty object, whose loop runs no
  pass: the mocker is left as it was (lemma \<open>reset_identity\<close>), rules included. The
  theorem runs \<^verbatim>\<open>reset\<close> on the registry of \<^verbatim>\<open>/api/user\<close>: the rule is still
  there and still matches.
\<close>

theorem reset_keeps_rules:
  "reset (\<lambda>info. info) (registry [userRule]) = registry [userRule]
   \<and> mockConfigData (reset (\<lambda>info. info) (registry [userRule])) = [(''/api/user-get'', userRule)]
   \<and> matchMockItem (reset (\<lambda>info. info) (registry [userRule])) ''/api/user'' (Some ''get'')
       = Inr (Some userRule)"
  by (simp add: reset_def example_defs eval_defs matchLoop.simps(2))

text \<open>
  C6. Registration failure: when the constructed rule has no key (\<^verbatim>\<open>!mockItem.key\<close>),
  \<^verbatim>\<open>mock\<close> returns \<^verbatim>\<open>false\<close> and the mocker is unchanged; otherwise it returns
  the constructed rule, which is then the rule stored under its key.
\<close>

theorem mock_failure_is_sentinel:
  "(noKey (N info) \<longrightarrow> mock N this info = (None, this))
   \<and> (\<not> noKey (N info) \<longrightarrow>
        (\<exists>k. key (N info) = Some k
           \<and> mock N this info = (Some (N info), addMockItem this k (N info))
           \<and> map_of (mockConfigData (snd (mock N this info))) k = Some (N info)))"
proof (cases "noKey (N info)")
  case True
  then show ?thesis by (simp add: mock_noKey)
next
  case False
  then obtain k where k: "key (N info) = Some k" "k \<noteq> []"
    by (auto simp: noKey_def split: option.splits)
  then have "mock N this info = (Some (N info), addMockItem this k (N info))"
    by (rule mock_withKey)
  with False k show ?thesis by (simp add: addMockItem_def setProperty_lookup)
qed

theorem mock_failure_is_sentinel_witness:
  "noKey (specMockItem noUrlInfo)
   \<and> mock specMockItem (registry [apiRule]) noUrlInfo = (None, registry [apiRule])
   \<and> \<not> noKey (specMockItem (userInfo (Finite 200)))
   \<and> fst (mock specMockItem (registry [apiRule]) (userInfo (Finite 200)))
       = Some (specMockItem (userInfo (Finite 200)))
   \<and> map_of (mockConfigData (snd (mock specMockItem (registry [apiRule]) (userInfo (Finite 200)))))
        ''/api/user-get''
       = Some (specMockItem (userInfo (Finite 200)))"
proof -
  have none: "noKey (specMockItem noUrlInfo)"
    by (simp add: noKey_def specMockItem_def noUrlInfo_def)
  have some: "key (specMockItem (userInfo (Finite 200))) = Some ''/api/user-get''"
    by (simp add: specMockItem_def example_defs urlToString_def template_def)
  then have keyed: "\<not> noKey (specMockItem (userInfo (Finite 200)))"
    by (simp add: noKey_def)
  from mock_failure_is_sentinel [of specMockItem noUrlInfo "registry [apiRule]"] none
  have rejected: "mock specMockItem (registry [apiRule]) noUrlInfo = (None, registry [apiRule])"
    by simp
  from mock_failure_is_sentinel [of specMockItem "userInfo (Finite 200)" "registry [apiRule]"]
       keyed some
  have "fst (mock specMockItem (registry [apiRule]) (userInfo (Finite 200)))
          = Some (specMockItem (userInfo (Finite 200)))
        \<and> map_of (mockConfigData (snd (mock specMockItem (registry [apiRule]) (userInfo (Finite 200)))))
             ''/api/user-get''
          = Some (specMockItem (userInfo (Finite 200)))"
    by auto
  with none keyed rejected show ?thesis by simp
qed

text \<open>
  C7. \<^verbatim>\<open>matchMockItem\<close> never throws: it always completes with a result; and when
  the loop body throws on a rule, the loop goes on with the rules after it, as it does
  after a rule that does not match.
\<close>

theorem match_never_throws:
  "(\<exists>result. matchMockItem this reqUrl reqMethod = Inr result)
   \<and> (tryBody reqUrl requestMethod info = Inl e \<longrightarrow>
        matchLoop reqUrl requestMethod ((k, info) # rest) = matchLoop reqUrl requestMethod rest)"
proof
  show "\<exists>result. matchMockItem this reqUrl reqMethod = Inr result"
    by (simp add: matchMockItem_def matchLoop_never_throws)
next
  show "tryBody reqUrl requestMethod info = Inl e \<longrightarrow>
        matchLoop reqUrl requestMethod ((k, info) # rest) = matchLoop reqUrl requestMethod rest"
    by (simp add: matchLoop_step_throw)
qed

theorem match_never_throws_witness:
  "tryBody ''/api/user'' ''get'' throwingRule = Inl (Exception ''TypeError'')
   \<and> matchLoop ''/api/user'' ''get'' [(''/x/-any'', throwingRule), (''/api-any'', apiRule)]
       = matchLoop ''/api/user'' ''get'' [(''/api-any'', apiRule)]
   \<and> matchMockItem (registry [throwingRule, apiRule]) ''/api/user'' (Some ''get'')
       = Inr (Some apiRule)"
proof -
  have throws: "tryBody ''/api/user'' ''get'' throwingRule = Inl (Exception ''TypeError'')"
    by (simp add: example_defs eval_defs)
  have rest: "matchLoop ''/api/user'' ''get'' [(''/api-any'', apiRule)] = Inr (Some apiRule)"
    by (simp add: example_defs eval_defs matchLoop.simps(2))
  have cfg: "mockConfigData (registry [throwingRule, apiRule])
             = [(''/x/-any'', throwingRule), (''/api-any'', apiRule)]"
    by (simp add: example_defs eval_defs)
  from match_never_throws
         [where this = "registry [throwingRule, apiRule]" and reqUrl = "''/api/user''"
            and reqMethod = "Some ''get''" and requestMethod = "''get''"
            and info = throwingRule and e = "Exception ''TypeError''" and k = "''/x/-any''"
            and rest = "[(''/api-any'', apiRule)]"]
       throws
  have step: "matchLoop ''/api/user'' ''get'' [(''/x/-any'', throwingRule), (''/api-any'', apiRule)]
              = matchLoop ''/api/user'' ''get'' [(''/api-any'', apiRule)]"
    by simp
  have "matchMockItem (registry [throwingRule, apiRule]) ''/api/user'' (Some ''get'')
        = matchLoop ''/api/user'' ''get'' [(''/x/-any'', throwingRule), (''/api-any'', apiRule)]"
    using cfg by (simp add: matchMockItem_def orGet_def registry_def)
  with throws step rest show ?thesis by simp
qed

text \<open>
  C8. Replace, not duplicate. A first registration leaves the keys of the registry as
  they were when its key was there already, and else adds the key at the end; whatever
  is registered afterwards comes after these keys; and a later registration of a rule
  with the same key changes neither the keys nor their order nor the rule of any other
  key: the one rule under the key is the second rule, at the place the key had, and a
  match that returns a rule of this key returns the second rule, with its
  \<^verbatim>\<open>status\<close>.
\<close>

theorem same_key_replaces_in_place:
  assumes "key (N first) = Some k" and "key (N second) = Some k" and "k \<noteq> []"
    and "wellFormed this"
  shows "let once = snd (mock N this first);
             later = setMockData N once others;
             twice = snd (mock N later second) in
           map fst (mockConfigData once)
             = (if k \<in> set (map fst (mockConfigData this)) then map fst (mockConfigData this)
                else map fst (mockConfigData this) @ [k])
           \<and> prefix (map fst (mockConfigData once)) (map fst (mockConfigData later))
           \<and> map fst (mockConfigData twice) = map fst (mockConfigData later)
           \<and> (\<forall>k'. k' \<noteq> k \<longrightarrow>
                 map_of (mockConfigData twice) k' = map_of (mockConfigData later) k')
           \<and> filter (\<lambda>(k', r). k' = k) (mockConfigData twice) = [(k, N second)]
           \<and> (\<forall>reqUrl reqMethod item.
                 matchMockItem twice reqUrl reqMethod = Inr (Some item) \<and> key item = Some k
                 \<longrightarrow> item = N second \<and> status item = status (N second))"
proof -
  define once where "once = snd (mock N this first)"
  define later where "later = setMockData N once others"
  define twice where "twice = snd (mock N later second)"
  have once: "once = addMockItem this k (N first)"
    using assms(1,3) by (simp add: once_def mock_withKey)
  have twice: "twice = addMockItem later k (N second)"
    using assms(2,3) by (simp add: twice_def mock_withKey)
  have wf_once: "wellFormed once"
    using assms(4) by (simp add: once_def mock_wellFormed)
  have wf_later: "wellFormed later"
    using wf_once by (simp add: later_def setMockData_wellFormed)
  have wf_twice: "wellFormed twice"
    using wf_later by (simp add: twice_def mock_wellFormed)
  have first_keys: "map fst (mockConfigData once)
             = (if k \<in> set (map fst (mockConfigData this)) then map fst (mockConfigData this)
                else map fst (mockConfigData this) @ [k])"
    by (simp add: once addMockItem_def setProperty_keys)
  have grown: "prefix (map fst (mockConfigData once)) (map fst (mockConfigData later))"
    by (simp add: later_def setMockData_keys_prefix)
  have "k \<in> set (map fst (mockConfigData once))"
    by (simp add: once addMockItem_def setProperty_keys)
  with grown have present: "k \<in> set (map fst (mockConfigData later))"
    using set_mono_prefix by blast
  have keys: "map fst (mockConfigData twice) = map fst (mockConfigData later)"
    using present by (simp add: twice addMockItem_def setProperty_keys)
  have others_kept: "\<forall>k'. k' \<noteq> k \<longrightarrow>
                 map_of (mockConfigData twice) k' = map_of (mockConfigData later) k'"
    by (simp add: twice addMockItem_def setProperty_lookup_other)
  have only: "filter (\<lambda>(k', r). k' = k) (mockConfigData twice) = [(k, N second)]"
    using wf_later by (simp add: twice addMockItem_def wellFormed_def setProperty_only)
  have observed: "item = N second \<and> status item = status (N second)"
    if "matchMockItem twice reqUrl reqMethod = Inr (Some item) \<and> key item = Some k"
    for reqUrl reqMethod item
  proof -
    from that have "matchLoop reqUrl (orGet reqMethod) (mockConfigData twice) = Inr (Some item)"
      by (simp add: matchMockItem_def split: if_splits)
    then obtain k' where "(k', item) \<in> set (mockConfigData twice)"
      using matchLoop_result_mem by blast
    with wf_twice that have "(k, item) \<in> set (filter (\<lambda>(k', r). k' = k) (mockConfigData twice))"
      using wellFormed_under_key by blast
    with only show ?thesis by simp
  qed
  from first_keys grown keys others_kept only observed show ?thesis
    unfolding once_def [symmetric] later_def [symmetric] twice_def [symmetric] Let_def by blast
qed

text \<open>
  The key of \<^verbatim>\<open>/api/user\<close> is first in the registry; after a registration under
  it, a registration of \<^verbatim>\<open>/health\<close> and a second registration under it, it is
  still first, before the two other keys, and its rule is the second one.
\<close>

theorem same_key_replaces_in_place_witness:
  "key (specMockItem (userInfo (Finite 200))) = Some ''/api/user-get''
   \<and> key (specMockItem (userInfo (Finite 404))) = Some ''/api/user-get''
   \<and> wellFormed (registry [userRule, apiRule])
   \<and> map fst (mockConfigData (registry [userRule, apiRule])) = [''/api/user-get'', ''/api-any'']
   \<and> map fst (mockConfigData
        (snd (mock specMockItem
           (setMockData specMockItem
              (snd (mock specMockItem (registry [userRule, apiRule]) (userInfo (Finite 200))))
              [(''health'', healthInfo)])
           (userInfo (Finite 404)))))
       = [''/api/user-get'', ''/api-any'', ''/health-any'']
   \<and> matchMockItem
        (snd (mock specMockItem
           (setMockData specMockItem
              (snd (mock specMockItem (registry [userRule, apiRule]) (userInfo (Finite 200))))
              [(''health'', healthInfo)])
           (userInfo (Finite 404))))
        ''/api/user'' (Some ''get'')
       = Inr (Some (specMockItem (userInfo (Finite 404))))
   \<and> status (specMockItem (userInfo (Finite 404))) = Some (Finite 404)"
proof -
  let ?once = "snd (mock specMockItem (registry [userRule, apiRule]) (userInfo (Finite 200)))"
  let ?later = "setMockData specMockItem ?once [(''health'', healthInfo)]"
  let ?twice = "snd (mock specMockItem ?later (userInfo (Finite 404)))"
  have k1: "key (specMockItem (userInfo (Finite 200))) = Some ''/api/user-get''"
    by (simp add: specMockItem_def example_defs urlToString_def template_def)
  have k2: "key (specMockItem (userInfo (Finite 404))) = Some ''/api/user-get''"
    by (simp add: specMockItem_def example_defs urlToString_def template_def)
  have ne: "''/api/user-get'' \<noteq> []"
    by simp
  have wf: "wellFormed (registry [userRule, apiRule])"
    by (simp add: wellFormed_def example_defs urlToString_def template_def)
  have before: "map fst (mockConfigData (registry [userRule, apiRule]))
                = [''/api/user-get'', ''/api-any'']"
    by (simp add: example_defs urlToString_def template_def)
  have later: "map fst (mockConfigData ?later) = [''/api/user-get'', ''/api-any'', ''/health-any'']"
    by (simp add: mock_def Let_def addMockItem_def specMockItem_def example_defs
          urlToString_def template_def)
  note replaced =
    same_key_replaces_in_place
      [where N = specMockItem and first = "userInfo (Finite 200)"
         and second = "userInfo (Finite 404)" and others = "[(''health'', healthInfo)]",
       OF k1 k2 ne wf, unfolded Let_def]
  from replaced later
  have keys: "map fst (mockConfigData ?twice) = [''/api/user-get'', ''/api-any'', ''/health-any'']"
    by simp
  have "\<exists>item. matchMockItem ?twice ''/api/user'' (Some ''get'') = Inr (Some item)
          \<and> key item = Some ''/api/user-get''"
    by (simp add: mock_def addMockItem_def specMockItem_def example_defs eval_defs
          matchLoop.simps(2))
  with replaced
  have "matchMockItem ?twice ''/api/user'' (Some ''get'')
        = Inr (Some (specMockItem (userInfo (Finite 404))))"
    by blast
  moreover have "status (specMockItem (userInfo (Finite 404))) = Some (Finite 404)"
    by (simp add: specMockItem_def userInfo_def)
  ultimately show ?thesis using k1 k2 wf before keys by simp
qed

text \<open>
  C9. Defaults of the helpers, with the rule constructor modelled from the
  specification: after a call of \<^verbatim>\<open>get\<close>, \<^verbatim>\<open>post\<close>, \<^verbatim>\<open>put\<close>, \<^verbatim>\<open>patch\<close>,
  \<^verbatim>\<open>delete\<close>, \<^verbatim>\<open>head\<close> or \<^verbatim>\<open>any\<close>, the rule registered under the key of the
  url and the helper's method has that method and, for each option among
  \<^verbatim>\<open>delay\<close>, \<^verbatim>\<open>status\<close>, \<^verbatim>\<open>times\<close>, \<^verbatim>\<open>header\<close> that the caller did not
  supply, the default 0, 200, \<^verbatim>\<open>Infinity\<close>, \<^verbatim>\<open>{}\<close>.
\<close>

theorem helpers_carry_defaults:
  "carriesDefaults opts ''get''
     (map_of (mockConfigData (get specMockItem this u b opts)) (specKey u (Some ''get'')))
   \<and> carriesDefaults opts ''post''
     (map_of (mockConfigData (post specMockItem this u b opts)) (specKey u (Some ''post'')))
   \<and> carriesDefaults opts ''put''
     (map_of (mockConfigData (put specMockItem this u b opts)) (specKey u (Some ''put'')))
   \<and> carriesDefaults opts ''patch''
     (map_of (mockConfigData (patch specMockItem this u b opts)) (specKey u (Some ''patch'')))
   \<and> carriesDefaults opts ''delete''
     (map_of (mockConfigData (delete specMockItem this u b opts)) (specKey u (Some ''delete'')))
   \<and> carriesDefaults opts ''head''
     (map_of (mockConfigData (head specMockItem this u opts)) (specKey u (Some ''head'')))
   \<and> carriesDefaults opts ''any''
     (map_of (mockConfigData (any specMockItem this u b opts)) (specKey u (Some ''any'')))"
  by (simp add: get_def post_def put_def patch_def delete_def head_def any_def Let_def
        helper_carries_defaults)

theorem helpers_carry_defaults_witness:
  "supplied delay None = None \<and> supplied status None = None
   \<and> supplied times_field None = None \<and> supplied header None = None
   \<and> supplied delay (Some (statusOnly (Finite 404))) = None
   \<and> supplied status (Some (statusOnly (Finite 404))) = Some (Finite 404)
   \<and> (\<exists>r. map_of (mockConfigData (get specMockItem (registry []) (UrlString ''/api/user'') None None))
              ''/api/user-get'' = Some r
          \<and> method_field r = Some ''get'' \<and> delay r = Some (Finite 0) \<and> status r = Some (Finite 200)
          \<and> times_field r = Some Infinity \<and> header r = Some [])
   \<and> (\<exists>r. map_of (mockConfigData (get specMockItem (registry []) (UrlString ''/api/user'') None
                 (Some (statusOnly (Finite 404)))))
              ''/api/user-get'' = Some r
          \<and> method_field r = Some ''get'' \<and> delay r = Some (Finite 0)
          \<and> times_field r = Some Infinity \<and> header r = Some [])"
proof -
  have k: "specKey (UrlString ''/api/user'') (Some ''get'') = ''/api/user-get''"
    by (simp add: specKey_def urlToString_def template_def)
  have none: "supplied delay None = None \<and> supplied status None = None
              \<and> supplied times_field None = None \<and> supplied header None = None"
    by (simp add: supplied_def)
  have part: "supplied delay (Some (statusOnly (Finite 404))) = None
              \<and> supplied status (Some (statusOnly (Finite 404))) = Some (Finite 404)
              \<and> supplied times_field (Some (statusOnly (Finite 404))) = None
              \<and> supplied header (Some (statusOnly (Finite 404))) = None"
    by (simp add: supplied_def statusOnly_def)
  from helpers_carry_defaults [of None "registry []" "UrlString ''/api/user''" None]
  have "carriesDefaults None ''get''
          (map_of (mockConfigData (get specMockItem (registry []) (UrlString ''/api/user'') None None))
             ''/api/user-get'')"
    using k by simp
  with none
  have all_default:
    "\<exists>r. map_of (mockConfigData (get specMockItem (registry []) (UrlString ''/api/user'') None None))
            ''/api/user-get'' = Some r
        \<and> method_field r = Some ''get'' \<and> delay r = Some (Finite 0) \<and> status r = Some (Finite 200)
        \<and> times_field r = Some Infinity \<and> header r = Some []"
    by (auto simp: carriesDefaults_def split: option.splits)
  from helpers_carry_defaults
         [of "Some (statusOnly (Finite 404))" "registry []" "UrlString ''/api/user''" None]
  have "carriesDefaults (Some (statusOnly (Finite 404))) ''get''
          (map_of (mockConfigData (get specMockItem (registry []) (UrlString ''/api/user'') None
             (Some (statusOnly (Finite 404)))))
             ''/api/user-get'')"
    using k by simp
  with part
  have some_default:
    "\<exists>r. map_of (mockConfigData (get specMockItem (registry []) (UrlString ''/api/user'') None
               (Some (statusOnly (Finite 404)))))
            ''/api/user-get'' = Some r
        \<and> method_field r = Some ''get'' \<and> delay r = Some (Finite 0)
        \<and> times_field r = Some Infinity \<and> header r = Some []"
    by (auto simp: carriesDefaults_def split: option.splits)
  from none part all_default some_default show ?thesis by simp
qed

text \<open>
  C10. One instance. A construction, by \<^verbatim>\<open>new Mocker()\<close> or by
  \<^verbatim>\<open>getInstance\<close>, returns a reference to an object of the store, which is the
  new empty mocker when the static field was not set. Whatever methods are then called
  through whatever references, a later construction, by either way, returns the same
  reference and leaves the store as it is, and the object behind the reference is the
  first one after the calls made through it: its rules, its switch and its log toggle
  are those the calls have set.
\<close>

theorem singleton_instance:
  assumes "storeOk st"
    and "construct1 = newMocker \<or> construct1 = getInstance"
    and "construct2 = newMocker \<or> construct2 = getInstance"
    and "construct1 n1 st = (first, st1)"
  shows "(\<exists>obj. objects st1 first = Some obj)
         \<and> (Mocker_instance st = None \<longrightarrow>
              objects st1 first = Some \<lparr>mockConfigData = [], disabled = False, log = \<not> n1\<rparr>)
         \<and> construct2 n2 (invokeAll calls st1) = (first, invokeAll calls st1)
         \<and> objects (invokeAll calls st1) first
             = map_option (applyCalls first calls) (objects st1 first)"
proof -
  from assms(2,4) have made: "newMocker n1 st = (first, st1)"
    by (auto simp: getInstance_def)
  have "Mocker_instance (invokeAll calls st1) = Some first"
    using made by (simp add: Mocker_instance_invokeAll newMocker_sets_instance)
  then have "newMocker n2 (invokeAll calls st1) = (first, invokeAll calls st1)"
    by (rule newMocker_existing)
  with assms(3) have again: "construct2 n2 (invokeAll calls st1) = (first, invokeAll calls st1)"
    by (auto simp: getInstance_def)
  from assms(1) made have "\<exists>obj. objects st1 first = Some obj"
    by (rule newMocker_object)
  moreover have "Mocker_instance st = None \<longrightarrow>
              objects st1 first = Some \<lparr>mockConfigData = [], disabled = False, log = \<not> n1\<rparr>"
    using made by (simp add: newMocker_fresh)
  ultimately show ?thesis using again by (simp add: objects_invokeAll)
qed

theorem singleton_instance_witness:
  "storeOk emptyStore
   \<and> Mocker_instance emptyStore = None
   \<and> getInstance False emptyStore = (0, snd (getInstance False emptyStore))
   \<and> objects (snd (getInstance False emptyStore)) 0
       = Some \<lparr>mockConfigData = [], disabled = False, log = True\<rparr>
   \<and> fst (newMocker True (invokeAll [(0, disable)] (snd (getInstance False emptyStore)))) = 0
   \<and> objects (snd (newMocker True (invokeAll [(0, disable)] (snd (getInstance False emptyStore))))) 0
       = Some \<lparr>mockConfigData = [], disabled = True, log = True\<rparr>"
proof -
  have ok: "storeOk emptyStore"
    by (simp add: storeOk_def emptyStore_def)
  have unset: "Mocker_instance (emptyStore :: unit Store) = None"
    by (simp add: emptyStore_def)
  have made: "getInstance False emptyStore = (0, snd (getInstance False emptyStore))"
    by (simp add: getInstance_def newMocker_def emptyStore_def Let_def)
  have c1: "(getInstance :: bool \<Rightarrow> unit Store \<Rightarrow> ref \<times> unit Store) = newMocker
            \<or> (getInstance :: bool \<Rightarrow> unit Store \<Rightarrow> ref \<times> unit Store) = getInstance"
    by simp
  have c2: "(newMocker :: bool \<Rightarrow> unit Store \<Rightarrow> ref \<times> unit Store) = newMocker
            \<or> (newMocker :: bool \<Rightarrow> unit Store \<Rightarrow> ref \<times> unit Store) = getInstance"
    by simp
  note one = singleton_instance [OF ok c1 c2 made, of True "[(0, disable)]"]
  from one unset
  have created: "objects (snd (getInstance False emptyStore)) 0
                 = Some \<lparr>mockConfigData = [], disabled = False, log = True\<rparr>"
    by simp
  from one created
  have "fst (newMocker True (invokeAll [(0, disable)] (snd (getInstance False emptyStore)))) = 0
        \<and> objects (snd (newMocker True (invokeAll [(0, disable)] (snd (getInstance False emptyStore))))) 0
           = Some \<lparr>mockConfigData = [], disabled = True, log = True\<rparr>"
    by (simp add: disable_def)
  with ok unset made created show ?thesis by simp
qed

end
